theory Spec2Isabelle
  imports Complex_Main
begin

section \<open>Value-at-Risk estimation (src/Var.py)\<close>

text \<open>
  The class \<^verbatim>\<open>VaRCalculator\<close> of \<^verbatim>\<open>src/Var.py\<close> downloads a price column, derives simple
  returns from it and offers three Value-at-Risk estimators and a summary over a list of
  confidence levels.

  Conventions of the embedding:
  \<^item> A Python float is a real number or NaN (type \<open>flt\<close>). Overflow and the infinities of
    IEEE arithmetic are not represented; NaN is, because pandas produces it (the first row
    of \<^verbatim>\<open>pct_change\<close>, the standard deviation of a single observation). The estimates are
    computed in exact arithmetic. The label of a summary row is not: \<^verbatim>\<open>int(cl*100)\<close>
    truncates, so the rounding of the product decides the label, and there the product is
    rounded to the nearest double as the machine does (\<open>fl64\<close>).
  \<^item> The price frame returned by \<^verbatim>\<open>yf.download\<close> is represented by its \<^verbatim>\<open>Adj Close\<close> column,
    a list of prices in row order. For one ticker this selection is a frame of one column,
    so that \<^verbatim>\<open>mean()\<close> and \<^verbatim>\<open>std()\<close> give one-element series (hence the \<^verbatim>\<open>.values[0]\<close> in
    \<^verbatim>\<open>get_var_summary\<close>); such a series is represented by its element. Prices are positive
    (spec, section 3); a zero price would make pandas produce an infinity, which the model
    has no value for, so every statement about the value of a derived return assumes
    positive prices.
  \<^item> An exception is a value of type \<open>error\<close>; a function that may raise returns
    \<open>error + 'a\<close>, with \<open>Inl\<close> the exception.
  \<^item> numpy's global random generator is the sequence of standard-normal variates it has
    still to deliver (type \<open>rng\<close>); a function that draws takes it and returns the rest.
  \<^item> Python names starting with an underscore lose it (\<open>download_data\<close>,
    \<open>calculate_returns\<close>); \<^verbatim>\<open>__init__\<close> is \<open>VaRCalculator_init\<close>.
\<close>

subsection \<open>Floats and exceptions\<close>

datatype flt = Num real | NaN

fun fadd :: "flt \<Rightarrow> flt \<Rightarrow> flt" where
  "fadd (Num a) (Num b) = Num (a + b)"
| "fadd _ _ = NaN"

fun fmul :: "flt \<Rightarrow> flt \<Rightarrow> flt" where
  "fmul (Num a) (Num b) = Num (a * b)"
| "fmul _ _ = NaN"

fun fabs :: "flt \<Rightarrow> flt" where
  "fabs (Num a) = Num \<bar>a\<bar>"
| "fabs NaN = NaN"

text \<open>\<^verbatim>\<open>x >= 0\<close> on floats: false whenever \<open>x\<close> is NaN.\<close>

fun nonneg :: "flt \<Rightarrow> bool" where
  "nonneg (Num a) = (0 \<le> a)"
| "nonneg NaN = False"

text \<open>
  The double nearest to a real number: rounding to nearest, ties to even, at 53 bits of
  precision. \<open>pow2 k\<close> is \<open>2\<^sup>k\<close>; the spacing of the doubles around \<open>x\<close> is \<open>2\<^sup>e\<^sup>-\<^sup>5\<^sup>2\<close> with
  \<open>e\<close> the binary exponent of \<open>x\<close>, and below \<open>2\<^sup>-\<^sup>1\<^sup>0\<^sup>2\<^sup>2\<close> it is that of the subnormal
  numbers. Magnitudes of \<open>2\<^sup>1\<^sup>0\<^sup>2\<^sup>4\<close> and more overflow on the machine and are outside the
  model. A real number is a double when rounding leaves it unchanged.
\<close>

definition pow2 :: "int \<Rightarrow> real" where
  "pow2 k = (if 0 \<le> k then 2 ^ nat k else 1 / 2 ^ nat (- k))"

definition round_half_even :: "real \<Rightarrow> int" where
  "round_half_even m =
     (let f = \<lfloor>m\<rfloor>; d = m - of_int f in
      if d < 1 / 2 then f
      else if 1 / 2 < d then f + 1
      else if even f then f else f + 1)"

definition fl64 :: "real \<Rightarrow> real" where
  "fl64 x =
     (if x = 0 then 0
      else
        let e = max \<lfloor>log 2 \<bar>x\<bar>\<rfloor> (- 1022);
            ulp = pow2 (e - 52)
        in sgn x * of_int (round_half_even (\<bar>x\<bar> / ulp)) * ulp)"


text \<open>
  The only exception class the module raises or lets through is \<^verbatim>\<open>ValueError\<close>; its
  argument is the message.
\<close>

datatype error = ValueError string

text \<open>The clause \<^verbatim>\<open>except ValueError as e\<close> of the main block: it selects by class only.\<close>

fun except_ValueError :: "error + 'a \<Rightarrow> bool" where
  "except_ValueError (Inl (ValueError msg)) = True"
| "except_ValueError (Inr v) = False"

subsection \<open>pandas: mean, standard deviation, percentage change\<close>

text \<open>\<^verbatim>\<open>Series.mean()\<close>: NaN on an empty series.\<close>

definition mean :: "real list \<Rightarrow> flt" where
  "mean xs = (if xs = [] then NaN else Num (sum_list xs / real (length xs)))"

text \<open>
  \<^verbatim>\<open>Series.std()\<close> with its default \<^verbatim>\<open>ddof=1\<close>: the sum of squared deviations from the
  mean over \<open>count - ddof\<close>, NaN when \<open>count - ddof \<le> 0\<close>.
\<close>

definition std :: "real list \<Rightarrow> flt" where
  "std xs =
     (let count = length xs; ddof = 1 in
      if count \<le> ddof then NaN
      else
        let avg = sum_list xs / real count;
            sqr = sum_list (map (\<lambda>x. (avg - x)\<^sup>2) xs)
        in Num (sqrt (sqr / real (count - ddof))))"

text \<open>
  \<^verbatim>\<open>Series.pct_change()\<close>: the first row has no predecessor and is NaN, row \<open>i\<close> is
  \<open>price\<^sub>i / price\<^sub>i\<^sub>-\<^sub>1 - 1\<close>. \<^verbatim>\<open>dropna()\<close> removes the NaN rows.
\<close>

fun pct_change :: "real list \<Rightarrow> flt list" where
  "pct_change [] = []"
| "pct_change (p # ps) = NaN # map (\<lambda>(prev, cur). Num (cur / prev - 1)) (zip (p # ps) ps)"

fun dropna :: "flt list \<Rightarrow> real list" where
  "dropna [] = []"
| "dropna (NaN # xs) = dropna xs"
| "dropna (Num r # xs) = r # dropna xs"

subsection \<open>numpy: percentile and normal variates\<close>

text \<open>
  \<^verbatim>\<open>np.percentile(a, q)\<close> with the default linear method, on the sorted data \<open>arr\<close> and
  the fraction \<open>q / 100\<close>: the value at the virtual index \<open>(n - 1) * q / 100\<close>, interpolated
  between its two neighbours; the upper neighbour is clipped to the last index.
\<close>

definition quantile_linear :: "real list \<Rightarrow> real \<Rightarrow> real" where
  "quantile_linear arr quantile =
     (let n = length arr;
          virtual_index = real (n - 1) * quantile;
          previous_index = nat \<lfloor>virtual_index\<rfloor>;
          next_index = min (previous_index + 1) (n - 1);
          gamma = virtual_index - real previous_index;
          previous = arr ! previous_index;
          next = arr ! next_index
      in previous + (next - previous) * gamma)"

text \<open>The finite values of an array, or \<open>None\<close> when one of its entries is NaN.\<close>

fun finite_values :: "flt list \<Rightarrow> real list option" where
  "finite_values [] = Some []"
| "finite_values (NaN # xs) = None"
| "finite_values (Num r # xs) = map_option ((#) r) (finite_values xs)"

text \<open>
  \<^verbatim>\<open>np.percentile\<close> raises \<^verbatim>\<open>ValueError\<close> when \<open>q\<close> is outside \<open>[0, 100]\<close>, and returns NaN
  for an array that holds a NaN. On an empty array the result depends on the version of
  numpy (NaN in the older ones, an error in the newer ones); the model takes NaN, and no
  statement below reaches that branch: each is about a non-empty return series and a call
  that draws at least one variate.
\<close>

definition np_percentile :: "flt list \<Rightarrow> real \<Rightarrow> error + flt" where
  "np_percentile a q =
     (if \<not> (0 \<le> q / 100 \<and> q / 100 \<le> 1)
      then Inl (ValueError ''Percentiles must be in the range [0, 100]'')
      else if a = [] then Inr NaN
      else case finite_values a of
             None \<Rightarrow> Inr NaN
           | Some xs \<Rightarrow> Inr (Num (quantile_linear (sort xs) (q / 100))))"

type_synonym rng = "nat \<Rightarrow> real"

text \<open>Taking the next \<open>n\<close> variates from the generator, and the generator left after it.\<close>

definition variates :: "nat \<Rightarrow> rng \<Rightarrow> real list" where
  "variates n g = map g [0..<n]"

definition advance :: "nat \<Rightarrow> rng \<Rightarrow> rng" where
  "advance n g = (\<lambda>i. g (i + n))"

text \<open>
  \<^verbatim>\<open>np.random.normal(loc, scale, size)\<close>, with \<open>n\<close> for \<^verbatim>\<open>size\<close>: \<open>n\<close> values
  \<open>loc + scale * z\<close>, the \<open>z\<close> being the next standard-normal variates of the generator.
  A negative \<open>scale\<close> and a negative \<open>n\<close> raise \<^verbatim>\<open>ValueError\<close>; a NaN \<open>scale\<close> is let
  through.
\<close>

definition np_random_normal :: "flt \<Rightarrow> flt \<Rightarrow> int \<Rightarrow> rng \<Rightarrow> error + (flt list \<times> rng)" where
  "np_random_normal loc scale n g =
     (if (case scale of Num s \<Rightarrow> s < 0 | NaN \<Rightarrow> False) then Inl (ValueError ''scale < 0'')
      else if n < 0 then Inl (ValueError ''negative dimensions are not allowed'')
      else Inr (map (\<lambda>z. fadd loc (fmul scale (Num z))) (variates (nat n) g),
                advance (nat n) g))"

subsection \<open>Python: \<^verbatim>\<open>int\<close> of a float and \<^verbatim>\<open>str\<close> of an integer\<close>

text \<open>\<^verbatim>\<open>int(x)\<close> truncates towards zero.\<close>

definition py_int :: "real \<Rightarrow> int" where
  "py_int x = (if 0 \<le> x then \<lfloor>x\<rfloor> else \<lceil>x\<rceil>)"

definition digit_char :: "nat \<Rightarrow> char" where
  "digit_char d = ''0123456789'' ! d"

fun str_nat :: "nat \<Rightarrow> string" where
  "str_nat n = (if n < 10 then [digit_char n] else str_nat (n div 10) @ [digit_char (n mod 10)])"

declare str_nat.simps [simp del]

definition str_int :: "int \<Rightarrow> string" where
  "str_int i = (if i < 0 then CHR ''-'' # str_nat (nat (- i)) else str_nat (nat i))"

subsection \<open>The class \<^verbatim>\<open>VaRCalculator\<close>\<close>

record VaRCalculator =
  ticker :: string
  start_date :: string
  end_date :: string
  data :: "real list"
  returns :: "real list"

text \<open>
  \<^verbatim>\<open>yf.download(ticker, start=..., end=..., auto_adjust=False, interval='1d')\<close> is the
  external price source: a parameter of the model. Its frame is empty exactly when its
  price column is.
\<close>

type_synonym price_source = "string \<Rightarrow> string \<Rightarrow> string \<Rightarrow> real list"

definition no_data_message :: "string \<Rightarrow> string" where
  "no_data_message tk = ''No se encontraron datos para '' @ tk @ '' en el periodo dado.''"

text \<open>The second message has the letter i with acute accent (code point 237) twice.\<close>

definition empty_returns_message :: string where
  "empty_returns_message =
     ''Serie de retornos vac'' @ [CHR 0xED] @ ''a. Ajusta el per'' @ [CHR 0xED]
       @ ''odo o activo seleccionado.''"

definition download_data :: "price_source \<Rightarrow> string \<Rightarrow> string \<Rightarrow> string \<Rightarrow> error + real list" where
  "download_data yf_download tk sd ed =
     (let asset = yf_download tk sd ed in
      if asset = [] then Inl (ValueError (no_data_message tk))
      else Inr asset)"

definition calculate_returns :: "real list \<Rightarrow> error + real list" where
  "calculate_returns prices =
     (let rets = dropna (pct_change prices) in
      if rets = [] then Inl (ValueError empty_returns_message)
      else Inr rets)"

definition VaRCalculator_init ::
    "price_source \<Rightarrow> string \<Rightarrow> string \<Rightarrow> string \<Rightarrow> error + VaRCalculator" where
  "VaRCalculator_init yf_download tk sd ed =
     (case download_data yf_download tk sd ed of
        Inl e \<Rightarrow> Inl e
      | Inr prices \<Rightarrow>
          (case calculate_returns prices of
             Inl e \<Rightarrow> Inl e
           | Inr rets \<Rightarrow>
               Inr \<lparr>ticker = tk, start_date = sd, end_date = ed, data = prices, returns = rets\<rparr>))"

definition var_parametric :: "VaRCalculator \<Rightarrow> real \<Rightarrow> rng \<Rightarrow> error + (flt \<times> rng)" where
  "var_parametric self confidence_level g =
     (let mean_v = mean (returns self);
          std_dev = std (returns self)
      in case np_random_normal (Num 0) (Num 1) 100000 g of
           Inl e \<Rightarrow> Inl e
         | Inr (sample, g') \<Rightarrow>
             (case np_percentile sample (confidence_level * 100) of
                Inl e \<Rightarrow> Inl e
              | Inr z \<Rightarrow> Inr (fabs (fadd mean_v (fmul std_dev z)), g')))"

definition var_historical :: "VaRCalculator \<Rightarrow> real \<Rightarrow> error + flt" where
  "var_historical self confidence_level =
     (case np_percentile (map Num (returns self)) (confidence_level * 100) of
        Inl e \<Rightarrow> Inl e
      | Inr var \<Rightarrow> Inr (fabs var))"

definition var_monte_carlo :: "VaRCalculator \<Rightarrow> real \<Rightarrow> int \<Rightarrow> rng \<Rightarrow> error + (flt \<times> rng)" where
  "var_monte_carlo self confidence_level simulations g =
     (let mean_v = mean (returns self);
          std_dev = std (returns self)
      in case np_random_normal mean_v std_dev simulations g of
           Inl e \<Rightarrow> Inl e
         | Inr (simulated_returns, g') \<Rightarrow>
             (case np_percentile simulated_returns (confidence_level * 100) of
                Inl e \<Rightarrow> Inl e
              | Inr var \<Rightarrow> Inr (fabs var, g')))"

text \<open>
  One row of the summary frame; the fields are the keys \<^verbatim>\<open>'Confidence Level'\<close>,
  \<^verbatim>\<open>'Parametric VaR'\<close>, \<^verbatim>\<open>'Historical VaR'\<close> and \<^verbatim>\<open>'Monte Carlo VaR'\<close> of the source's
  dictionary, evaluated in this order.
\<close>

record summary_row =
  Confidence_Level :: string
  Parametric_VaR :: flt
  Historical_VaR :: flt
  Monte_Carlo_VaR :: flt

text \<open>
  The loop of \<^verbatim>\<open>get_var_summary\<close>; \<open>summary\<close> is the list built so far. The default of
  \<^verbatim>\<open>simulations\<close> is 10000. The label is \<^verbatim>\<open>f"{int(cl*100)}%"\<close>: the product of the doubles
  \<open>cl\<close> and \<open>100\<close> is a double again, the nearest to the exact product.
\<close>

fun summary_loop ::
    "VaRCalculator \<Rightarrow> real list \<Rightarrow> summary_row list \<Rightarrow> rng \<Rightarrow> error + (summary_row list \<times> rng)" where
  "summary_loop self [] summary g = Inr (summary, g)"
| "summary_loop self (cl # cls) summary g =
     (let label = str_int (py_int (fl64 (cl * 100))) @ ''%'' in
      case var_parametric self cl g of
        Inl e \<Rightarrow> Inl e
      | Inr (p, g1) \<Rightarrow>
          (case var_historical self cl of
             Inl e \<Rightarrow> Inl e
           | Inr h \<Rightarrow>
               (case var_monte_carlo self cl 10000 g1 of
                  Inl e \<Rightarrow> Inl e
                | Inr (m, g2) \<Rightarrow>
                    summary_loop self cls
                      (summary @ [\<lparr>Confidence_Level = label, Parametric_VaR = p,
                                   Historical_VaR = h, Monte_Carlo_VaR = m\<rparr>]) g2)))"

definition get_var_summary ::
    "VaRCalculator \<Rightarrow> real list \<Rightarrow> rng \<Rightarrow> error + (summary_row list \<times> rng)" where
  "get_var_summary self confidence_levels g = summary_loop self confidence_levels [] g"

subsection \<open>The specification's notions\<close>

text \<open>
  What a row of the summary holds for the confidence level \<open>cl\<close> when the loop body starts
  with the generator \<open>g\<close>: the label and the three values, the parametric estimate drawing
  100000 variates and the Monte Carlo estimate the next 10000.
\<close>

definition row_for :: "VaRCalculator \<Rightarrow> real \<Rightarrow> rng \<Rightarrow> summary_row \<Rightarrow> bool" where
  "row_for self cl g r \<longleftrightarrow>
     Confidence_Level r = str_int (py_int (fl64 (cl * 100))) @ ''%'' \<and>
     var_parametric self cl g = Inr (Parametric_VaR r, advance 100000 g) \<and>
     var_historical self cl = Inr (Historical_VaR r) \<and>
     var_monte_carlo self cl 10000 (advance 100000 g) = Inr (Monte_Carlo_VaR r, advance 110000 g)"

text \<open>
  The percentile by linear interpolation between closest ranks, as the specification
  names it: on the sorted data, at the rank \<open>h = (n - 1) * q / 100\<close> counted from zero,
  the value \<open>x\<^sub>\<lfloor>\<^sub>h\<^sub>\<rfloor> + (h - \<lfloor>h\<rfloor>) * (x\<^sub>\<lceil>\<^sub>h\<^sub>\<rceil> - x\<^sub>\<lfloor>\<^sub>h\<^sub>\<rfloor>)\<close>.
\<close>

definition linear_interpolation_percentile :: "real list \<Rightarrow> real \<Rightarrow> real" where
  "linear_interpolation_percentile xs q =
     (let x = sort xs;
          h = real (length xs - 1) * q / 100
      in x ! nat \<lfloor>h\<rfloor> + (h - of_int \<lfloor>h\<rfloor>) * (x ! nat \<lceil>h\<rceil> - x ! nat \<lfloor>h\<rfloor>))"

text \<open>The sample mean and the unbiased sample standard deviation (denominator \<open>n - 1\<close>).\<close>

definition sample_mean :: "real list \<Rightarrow> real" where
  "sample_mean xs = (\<Sum>x\<leftarrow>xs. x) / real (length xs)"

definition sample_std :: "real list \<Rightarrow> real" where
  "sample_std xs = sqrt ((\<Sum>x\<leftarrow>xs. (x - sample_mean xs)\<^sup>2) / (real (length xs) - 1))"

subsection \<open>Concrete inputs\<close>

text \<open>A price source that answers every request with the same price column.\<close>

definition fixed_source :: "real list \<Rightarrow> price_source" where
  "fixed_source prices = (\<lambda>tk sd ed. prices)"

text \<open>A generator whose variates are all zero.\<close>

definition zero_rng :: rng where
  "zero_rng = (\<lambda>i. 0)"





text \<open>The return series of the specification's example (section 8).\<close>

definition example_returns :: "real list" where
  "example_returns =
     [1 / 100, - (2 / 100), 15 / 1000, - (5 / 1000), 2 / 100,
      - (1 / 100), 5 / 1000, - (3 / 100), 12 / 1000, - (8 / 1000)]"

text \<open>
  The estimator that the constructor builds from a price column (its other fields are
  those of the main block), and the price column that starts at \<open>p\<close> and changes by the
  given returns.
\<close>

definition estimator_of :: "real list \<Rightarrow> VaRCalculator" where
  "estimator_of prices =
     \<lparr>ticker = ''SPY'', start_date = ''2024-01-01'', end_date = ''2025-01-01'',
      data = prices, returns = dropna (pct_change prices)\<rparr>"

fun compound :: "real \<Rightarrow> real list \<Rightarrow> real list" where
  "compound p [] = [p]"
| "compound p (r # rs) = p # compound (p * (1 + r)) rs"

section \<open>Properties of the percentile, the estimators and the constructor\<close>








lemma quantile_index_bounds:
  assumes "arr \<noteq> []" "0 \<le> p" "p \<le> 1"
  shows "nat \<lfloor>real (length arr - 1) * p\<rfloor> \<le> length arr - 1"
proof -
  have "real (length arr - 1) * p \<le> real (length arr - 1)"
    using assms by (simp add: mult_left_le)
  then have "\<lfloor>real (length arr - 1) * p\<rfloor> \<le> int (length arr - 1)"
    by (simp add: floor_le_iff)
  then show ?thesis by linarith
qed

lemma quantile_linear_zero: "arr \<noteq> [] \<Longrightarrow> quantile_linear arr 0 = arr ! 0"
  by (simp add: quantile_linear_def)

lemma quantile_linear_one: "arr \<noteq> [] \<Longrightarrow> quantile_linear arr 1 = arr ! (length arr - 1)"
  by (simp add: quantile_linear_def Let_def)

lemma sort_nth_0_Min:
  assumes "xs \<noteq> []"
  shows "sort xs ! 0 = Min (set xs)"
proof -
  have ne: "sort xs \<noteq> []" using assms by (metis length_sort length_0_conv)
  have "Min (set (sort xs)) = sort xs ! 0"
  proof (rule Min_eqI)
    show "finite (set (sort xs))" by simp
    show "sort xs ! 0 \<in> set (sort xs)" using assms by (intro nth_mem) simp
    fix y assume "y \<in> set (sort xs)"
    then obtain i where "i < length (sort xs)" "sort xs ! i = y"
      by (auto simp: in_set_conv_nth simp del: set_sort length_sort)
    then show "sort xs ! 0 \<le> y"
      using sorted_nth_mono[of "sort xs" 0 i] by simp
  qed
  then show ?thesis by simp
qed

lemma sort_nth_last_Max:
  assumes "xs \<noteq> []"
  shows "sort xs ! (length xs - 1) = Max (set xs)"
proof -
  have len: "length (sort xs) = length xs" by simp
  have pos: "0 < length xs" using assms by simp
  have "Max (set (sort xs)) = sort xs ! (length xs - 1)"
  proof (rule Max_eqI)
    show "finite (set (sort xs))" by simp
    show "sort xs ! (length xs - 1) \<in> set (sort xs)"
      using pos by (intro nth_mem) simp
    fix y assume "y \<in> set (sort xs)"
    then obtain i where "i < length (sort xs)" "sort xs ! i = y"
      by (auto simp: in_set_conv_nth simp del: set_sort length_sort)
    then show "y \<le> sort xs ! (length xs - 1)"
      using sorted_nth_mono[of "sort xs" i "length xs - 1"] pos by auto
  qed
  then show ?thesis by simp
qed

lemma finite_values_map_Num: "finite_values (map Num xs) = Some xs"
  by (induction xs) simp_all

lemma np_percentile_reals:
  assumes "xs \<noteq> []" "0 \<le> q" "q \<le> 100"
  shows "np_percentile (map Num xs) q = Inr (Num (quantile_linear (sort xs) (q / 100)))"
  using assms by (simp add: np_percentile_def finite_values_map_Num)

lemma linear_interpolation_percentile_eq:
  assumes ne: "xs \<noteq> []" and q: "0 \<le> q" "q \<le> 100"
  shows "linear_interpolation_percentile xs q = quantile_linear (sort xs) (q / 100)"
proof -
  define n where "n = length xs"
  define h where "h = real (n - 1) * q / 100"
  define k where "k = nat \<lfloor>h\<rfloor>"
  have h0: "0 \<le> h" using q by (simp add: h_def)
  have "real (n - 1) * q \<le> real (n - 1) * 100" using q by (intro mult_left_mono) simp_all
  then have hn: "h \<le> real (n - 1)" by (simp add: h_def)
  have fk: "of_int \<lfloor>h\<rfloor> = real k" using h0 by (simp add: k_def)
  have lhs: "linear_interpolation_percentile xs q =
      sort xs ! k + (h - real k) * (sort xs ! nat \<lceil>h\<rceil> - sort xs ! k)"
    unfolding linear_interpolation_percentile_def Let_def n_def[symmetric] h_def[symmetric] fk
      k_def[symmetric] by simp
  have rhs: "quantile_linear (sort xs) (q / 100) =
      sort xs ! k + (sort xs ! min (k + 1) (n - 1) - sort xs ! k) * (h - real k)"
    by (simp add: quantile_linear_def Let_def h_def k_def n_def)
  show ?thesis
  proof (cases "h = real k")
    case True
    then show ?thesis by (simp add: lhs rhs)
  next
    case False
    have "real k \<le> h" using h0 by (simp add: k_def)
    with False have lt: "real k < h" by simp
    have "\<lceil>h\<rceil> = \<lfloor>h\<rfloor> + 1"
      using False fk by (metis ceiling_altdef of_int_floor_cancel)
    then have ck: "nat \<lceil>h\<rceil> = k + 1" using h0 by (simp add: k_def nat_add_distrib)
    have "real k < real (n - 1)" using lt hn by simp
    then have "k + 1 \<le> n - 1" by simp
    then have "min (k + 1) (n - 1) = k + 1" by simp
    then show ?thesis by (simp add: lhs rhs ck mult.commute)
  qed
qed

lemma quantile_linear_bounds:
  assumes "sorted arr" "arr \<noteq> []" "0 \<le> p" "p \<le> 1"
  shows "arr ! nat \<lfloor>real (length arr - 1) * p\<rfloor> \<le> quantile_linear arr p"
    and "quantile_linear arr p \<le> arr ! min (nat \<lfloor>real (length arr - 1) * p\<rfloor> + 1) (length arr - 1)"
proof -
  define h where "h = real (length arr - 1) * p"
  define k where "k = nat \<lfloor>h\<rfloor>"
  define k' where "k' = min (k + 1) (length arr - 1)"
  have h0: "0 \<le> h" using assms by (simp add: h_def)
  have kle: "k \<le> length arr - 1"
    using quantile_index_bounds[OF assms(2-4)] by (simp add: k_def h_def)
  have g0: "0 \<le> h - real k" and g1: "h - real k \<le> 1"
    using h0 by (simp_all add: k_def) linarith+
  have k'lt: "k' < length arr" using assms(2) by (cases arr) (auto simp: k'_def min_def)
  have "k \<le> k'" using kle by (simp add: k'_def)
  then have le: "arr ! k \<le> arr ! k'"
    using assms(1) k'lt by (simp add: sorted_nth_mono)
  have q: "quantile_linear arr p = arr ! k + (arr ! k' - arr ! k) * (h - real k)"
    by (simp add: quantile_linear_def Let_def h_def k_def k'_def)
  have "0 \<le> (arr ! k' - arr ! k) * (h - real k)" using le g0 by simp
  then have "arr ! k \<le> quantile_linear arr p" by (simp add: q)
  then show "arr ! nat \<lfloor>real (length arr - 1) * p\<rfloor> \<le> quantile_linear arr p"
    unfolding k_def h_def .
  have "(arr ! k' - arr ! k) * (h - real k) \<le> (arr ! k' - arr ! k) * 1"
    using le g1 by (intro mult_left_mono) simp_all
  then have "quantile_linear arr p \<le> arr ! k'" by (simp add: q)
  then show "quantile_linear arr p \<le> arr ! min (nat \<lfloor>real (length arr - 1) * p\<rfloor> + 1) (length arr - 1)"
    unfolding k'_def k_def h_def .
qed

lemma quantile_linear_mono:
  assumes s: "sorted arr" and ne: "arr \<noteq> []" and p: "0 \<le> p1" "p1 \<le> p2" "p2 \<le> 1"
  shows "quantile_linear arr p1 \<le> quantile_linear arr p2"
proof -
  define h1 where "h1 = real (length arr - 1) * p1"
  define h2 where "h2 = real (length arr - 1) * p2"
  define k1 where "k1 = nat \<lfloor>h1\<rfloor>"
  define k2 where "k2 = nat \<lfloor>h2\<rfloor>"
  have h12: "h1 \<le> h2" using p by (simp add: h1_def h2_def mult_left_mono)
  have h10: "0 \<le> h1" using p by (simp add: h1_def)
  have k12: "k1 \<le> k2" using h12 by (simp add: k1_def k2_def floor_mono nat_mono)
  have k2le: "k2 \<le> length arr - 1"
    using quantile_index_bounds[OF ne, of p2] p by (simp add: k2_def h2_def)
  show ?thesis
  proof (cases "k1 = k2")
    case True
    define k' where "k' = min (k1 + 1) (length arr - 1)"
    have k'lt: "k' < length arr" using ne by (cases arr) (auto simp: k'_def min_def)
    have "k1 \<le> k'" using k2le True by (simp add: k'_def)
    then have le: "arr ! k1 \<le> arr ! k'" using s k'lt by (simp add: sorted_nth_mono)
    have q1: "quantile_linear arr p1 = arr ! k1 + (arr ! k' - arr ! k1) * (h1 - real k1)"
      by (simp add: quantile_linear_def Let_def h1_def k1_def k'_def)
    have q2: "quantile_linear arr p2 = arr ! k1 + (arr ! k' - arr ! k1) * (h2 - real k1)"
      using True by (simp add: quantile_linear_def Let_def h2_def k2_def k'_def flip: k1_def)
    have "(arr ! k' - arr ! k1) * (h1 - real k1) \<le> (arr ! k' - arr ! k1) * (h2 - real k1)"
      using le h12 by (intro mult_left_mono) simp_all
    then show ?thesis by (simp add: q1 q2)
  next
    case False
    then have lt: "k1 + 1 \<le> k2" using k12 by simp
    have "quantile_linear arr p1 \<le> arr ! min (k1 + 1) (length arr - 1)"
      unfolding k1_def h1_def using quantile_linear_bounds(2)[OF s ne, of p1] p by simp
    also have "min (k1 + 1) (length arr - 1) = k1 + 1" using lt k2le by simp
    also have "arr ! (k1 + 1) \<le> arr ! k2"
    proof -
      have "k2 < length arr" using k2le ne by (cases arr) auto
      then show ?thesis using s lt by (simp add: sorted_nth_mono)
    qed
    also have "arr ! k2 \<le> quantile_linear arr p2"
      unfolding k2_def h2_def using quantile_linear_bounds(1)[OF s ne, of p2] p by simp
    finally show ?thesis .
  qed
qed

lemma length_variates: "length (variates n g) = n"
  by (simp add: variates_def)

lemma variates_nonempty: "0 < n \<Longrightarrow> variates n g \<noteq> []"
  using length_variates[of n g] by auto

lemma advance_advance: "advance a (advance b g) = advance (a + b) g"
  by (simp add: advance_def fun_eq_iff ac_simps)

lemma advance_zero: "advance 0 g = g"
  by (simp add: advance_def)

lemma np_random_normal_standard:
  "0 \<le> n \<Longrightarrow> np_random_normal (Num 0) (Num 1) n g = Inr (map Num (variates (nat n) g), advance (nat n) g)"
  by (simp add: np_random_normal_def)

lemma np_random_normal_finite:
  "0 \<le> s \<Longrightarrow> 0 \<le> n \<Longrightarrow>
   np_random_normal (Num m) (Num s) n g =
     Inr (map Num (map (\<lambda>z. m + s * z) (variates (nat n) g)), advance (nat n) g)"
  by (simp add: np_random_normal_def)

lemma np_random_normal_rng:
  "np_random_normal loc scale n g = Inr (sample, g') \<Longrightarrow> g' = advance (nat n) g"
  by (auto simp: np_random_normal_def split: if_splits)

lemma np_percentile_in_range:
  assumes "a \<noteq> []" "0 \<le> q" "q \<le> 100"
  shows "\<exists>v. np_percentile a q = Inr v"
  using assms by (simp add: np_percentile_def split: option.split)

lemma mean_finite: "xs \<noteq> [] \<Longrightarrow> mean xs = Num (sample_mean xs)"
  by (simp add: mean_def sample_mean_def)

lemma std_finite:
  assumes "2 \<le> length xs"
  shows "std xs = Num (sample_std xs)"
proof -
  have "real (length xs - 1) = real (length xs) - 1" using assms by (simp add: of_nat_diff)
  moreover have "(\<lambda>x. (sum_list xs / real (length xs) - x)\<^sup>2) = (\<lambda>x. (x - sum_list xs / real (length xs))\<^sup>2)"
    by (simp add: power2_commute)
  ultimately show ?thesis using assms
    by (simp add: std_def sample_std_def sample_mean_def Let_def)
qed

lemma std_single: "length xs \<le> 1 \<Longrightarrow> std xs = NaN"
  by (simp add: std_def)

lemma sample_std_nonneg: "2 \<le> length xs \<Longrightarrow> 0 \<le> sample_std xs"
  unfolding sample_std_def by (intro real_sqrt_ge_zero divide_nonneg_nonneg sum_list_nonneg) auto

lemma std_not_negative: "std xs = Num s \<Longrightarrow> 0 \<le> s"
  using std_finite[of xs] sample_std_nonneg[of xs] std_single[of xs]
  by (cases "2 \<le> length xs") auto

lemma var_parametric_value:
  assumes "0 \<le> cl" "cl \<le> 1"
  shows "var_parametric self cl g =
    Inr (fabs (fadd (mean (returns self))
                 (fmul (std (returns self)) (Num (quantile_linear (sort (variates 100000 g)) cl)))),
         advance 100000 g)"
proof -
  have "variates 100000 g \<noteq> []" by (rule variates_nonempty) simp
  then have "np_percentile (map Num (variates 100000 g)) (cl * 100) =
      Inr (Num (quantile_linear (sort (variates 100000 g)) cl))"
    using assms np_percentile_reals[of "variates 100000 g" "cl * 100"] by simp
  then show ?thesis
    by (simp add: var_parametric_def np_random_normal_standard)
qed

lemma var_parametric_rng:
  "var_parametric self cl g = Inr (p, g') \<Longrightarrow> g' = advance 100000 g"
  by (auto simp: var_parametric_def Let_def split: sum.splits dest!: np_random_normal_rng)

lemma var_monte_carlo_rng:
  "var_monte_carlo self cl n g = Inr (m, g') \<Longrightarrow> g' = advance (nat n) g"
  by (auto simp: var_monte_carlo_def Let_def split: sum.splits dest!: np_random_normal_rng)

lemma var_historical_value:
  assumes "returns self \<noteq> []" "0 \<le> cl" "cl \<le> 1"
  shows "var_historical self cl = Inr (Num \<bar>quantile_linear (sort (returns self)) cl\<bar>)"
  using assms np_percentile_reals[of "returns self" "cl * 100"]
  by (simp add: var_historical_def)

lemma var_historical_total:
  assumes "returns self \<noteq> []" "0 \<le> cl" "cl \<le> 1"
  shows "\<exists>h. var_historical self cl = Inr h"
  using assms by (simp add: var_historical_value)

lemma np_random_normal_total:
  assumes "0 \<le> n" "\<And>s. scale = Num s \<Longrightarrow> 0 \<le> s"
  shows "\<exists>sample. np_random_normal loc scale n g = Inr (sample, advance (nat n) g) \<and>
           length sample = nat n"
  using assms by (cases scale) (auto simp: np_random_normal_def length_variates)

lemma var_monte_carlo_total:
  assumes "0 \<le> cl" "cl \<le> 1" "1 \<le> n"
  shows "\<exists>m. var_monte_carlo self cl n g = Inr (m, advance (nat n) g)"
proof -
  have n0: "0 \<le> n" using assms(3) by simp
  obtain sample where s: "np_random_normal (mean (returns self)) (std (returns self)) n g
      = Inr (sample, advance (nat n) g)" and l: "length sample = nat n"
    using np_random_normal_total[OF n0, of "std (returns self)"] std_not_negative by blast
  have "sample \<noteq> []" using l assms(3) by auto
  then obtain v where "np_percentile sample (cl * 100) = Inr v"
    using np_percentile_in_range[of sample "cl * 100"] assms by auto
  with s show ?thesis by (simp add: var_monte_carlo_def)
qed

lemma var_monte_carlo_value:
  assumes "2 \<le> length (returns self)" "0 \<le> cl" "cl \<le> 1" "1 \<le> n"
  shows "var_monte_carlo self cl n g =
    Inr (Num \<bar>quantile_linear
                 (sort (map (\<lambda>z. sample_mean (returns self) + sample_std (returns self) * z)
                          (variates (nat n) g))) cl\<bar>,
         advance (nat n) g)"
proof -
  let ?rs = "returns self"
  let ?sim = "map (\<lambda>z. sample_mean ?rs + sample_std ?rs * z) (variates (nat n) g)"
  have ne: "?rs \<noteq> []" using assms(1) by auto
  have "np_random_normal (mean ?rs) (std ?rs) n g = Inr (map Num ?sim, advance (nat n) g)"
    using assms np_random_normal_finite[of "sample_std ?rs" n "sample_mean ?rs" g]
    by (simp add: mean_finite[OF ne] std_finite sample_std_nonneg)
  moreover have "?sim \<noteq> []" using assms(4) variates_nonempty[of "nat n" g] by simp
  then have "np_percentile (map Num ?sim) (cl * 100) = Inr (Num (quantile_linear (sort ?sim) cl))"
    using assms np_percentile_reals[of ?sim "cl * 100"] by simp
  ultimately show ?thesis by (simp add: var_monte_carlo_def)
qed

lemma summary_loop_shape:
  assumes "summary_loop self cls acc g = Inr (rows, g')"
  shows "\<exists>rs. rows = acc @ rs \<and> length rs = length cls \<and>
           g' = advance (110000 * length cls) g \<and>
           (\<forall>i<length cls. row_for self (cls ! i) (advance (110000 * i) g) (rs ! i))"
  using assms
proof (induction cls arbitrary: acc g)
  case Nil
  then show ?case by (simp add: advance_zero)
next
  case (Cons cl cls)
  from Cons.prems obtain p g1 h m g2 where
    p: "var_parametric self cl g = Inr (p, g1)" and
    h: "var_historical self cl = Inr h" and
    m: "var_monte_carlo self cl 10000 g1 = Inr (m, g2)" and
    rest: "summary_loop self cls
             (acc @ [\<lparr>Confidence_Level = str_int (py_int (fl64 (cl * 100))) @ ''%'', Parametric_VaR = p,
                       Historical_VaR = h, Monte_Carlo_VaR = m\<rparr>]) g2 = Inr (rows, g')"
    by (auto simp: Let_def split: sum.splits)
  let ?r = "\<lparr>Confidence_Level = str_int (py_int (fl64 (cl * 100))) @ ''%'', Parametric_VaR = p,
             Historical_VaR = h, Monte_Carlo_VaR = m\<rparr>"
  have g1: "g1 = advance 100000 g" using p by (rule var_parametric_rng)
  have g2: "g2 = advance 110000 g"
    using var_monte_carlo_rng[OF m] by (simp add: g1 advance_advance)
  have row: "row_for self cl g ?r"
    using p h m by (simp add: row_for_def g1 g2)
  from Cons.IH[OF rest] obtain rs where
    rs: "rows = (acc @ [?r]) @ rs" "length rs = length cls"
        "g' = advance (110000 * length cls) g2"
        "\<forall>i<length cls. row_for self (cls ! i) (advance (110000 * i) g2) (rs ! i)"
    by blast
  have "\<forall>i<length (cl # cls). row_for self ((cl # cls) ! i) (advance (110000 * i) g) ((?r # rs) ! i)"
  proof (intro allI impI)
    fix i assume i: "i < length (cl # cls)"
    show "row_for self ((cl # cls) ! i) (advance (110000 * i) g) ((?r # rs) ! i)"
    proof (cases i)
      case 0
      then show ?thesis using row by (simp add: advance_zero)
    next
      case (Suc j)
      then have "j < length cls" using i by simp
      then have "row_for self (cls ! j) (advance (110000 * j) g2) (rs ! j)" using rs(4) by blast
      then show ?thesis by (simp add: Suc g2 advance_advance add.commute)
    qed
  qed
  moreover have "rows = acc @ (?r # rs)" using rs(1) by simp
  moreover have "length (?r # rs) = length (cl # cls)" using rs(2) by simp
  moreover have "g' = advance (110000 * length (cl # cls)) g"
    using rs(3) by (simp add: g2 advance_advance add.commute)
  ultimately show ?case by blast
qed

lemma summary_loop_total:
  assumes "\<forall>cl\<in>set cls. 0 \<le> cl \<and> cl \<le> 1" and ne: "returns self \<noteq> []"
  shows "\<exists>rows g'. summary_loop self cls acc g = Inr (rows, g')"
  using assms
proof (induction cls arbitrary: acc g)
  case Nil
  then show ?case by simp
next
  case (Cons cl cls)
  then have cl: "0 \<le> cl" "cl \<le> 1" by simp_all
  obtain p where p: "var_parametric self cl g = Inr (p, advance 100000 g)"
    using var_parametric_value[OF cl] by blast
  obtain h where h: "var_historical self cl = Inr h"
    using var_historical_total[OF ne cl] by blast
  have "\<exists>m. var_monte_carlo self cl 10000 (advance 100000 g) =
      Inr (m, advance (nat 10000) (advance 100000 g))"
    by (rule var_monte_carlo_total[OF cl]) simp
  then obtain m where m: "var_monte_carlo self cl 10000 (advance 100000 g) =
      Inr (m, advance (nat 10000) (advance 100000 g))" by blast
  from Cons.prems have "\<forall>cl\<in>set cls. 0 \<le> cl \<and> cl \<le> 1" by simp
  from Cons.IH[OF this ne] show ?case using p h m by (simp add: Let_def)
qed

lemma dropna_map2_Num:
  "dropna (map (\<lambda>(a, b). Num (f a b)) xs) = map (\<lambda>(a, b). f a b) xs"
  by (induction xs) auto

lemma dropna_pct_change:
  "dropna (pct_change (p # ps)) = map (\<lambda>(prev, cur). cur / prev - 1) (zip (p # ps) ps)"
  by (simp add: dropna_map2_Num)

lemma length_dropna_pct_change: "length (dropna (pct_change prices)) = length prices - 1"
  by (cases prices) (simp_all add: dropna_pct_change del: pct_change.simps(2))

lemma nth_dropna_pct_change:
  assumes "1 \<le> i" "i < length prices"
  shows "dropna (pct_change prices) ! (i - 1) = prices ! i / prices ! (i - 1) - 1"
proof (cases prices)
  case Nil
  then show ?thesis using assms by simp
next
  case (Cons p ps)
  obtain j where j: "i = Suc j" using assms(1) by (cases i) auto
  then have "j < length ps" using assms(2) Cons by simp
  then show ?thesis by (simp add: Cons dropna_pct_change j del: pct_change.simps(2))
qed

lemma calculate_returns_short: "length prices \<le> 1 \<Longrightarrow> calculate_returns prices = Inl (ValueError empty_returns_message)"
  using length_dropna_pct_change[of prices] by (simp add: calculate_returns_def)

lemma calculate_returns_long: "2 \<le> length prices \<Longrightarrow> calculate_returns prices = Inr (dropna (pct_change prices))"
  using length_dropna_pct_change[of prices] by (auto simp: calculate_returns_def Let_def)

lemma init_fixed_source:
  "2 \<le> length prices \<Longrightarrow>
   VaRCalculator_init (fixed_source prices) ''SPY'' ''2024-01-01'' ''2025-01-01'' = Inr (estimator_of prices)"
  by (auto simp: VaRCalculator_init_def download_data_def fixed_source_def calculate_returns_long estimator_of_def)

lemma compound_unfold: "compound p rs = p # tl (compound p rs)"
  by (cases rs) simp_all

lemma pct_change_compound:
  assumes "p \<noteq> 0" "\<forall>r\<in>set rs. 1 + r \<noteq> 0"
  shows "map (\<lambda>(prev, cur). cur / prev - 1) (zip (compound p rs) (tl (compound p rs))) = rs"
  using assms
proof (induction rs arbitrary: p)
  case Nil
  then show ?case by simp
next
  case (Cons r rs)
  let ?q = "p * (1 + r)"
  have q: "?q \<noteq> 0" using Cons.prems by simp
  have ih: "map (\<lambda>(prev, cur). cur / prev - 1) (zip (compound ?q rs) (tl (compound ?q rs))) = rs"
    using Cons.IH[OF q] Cons.prems by simp
  obtain t where t: "compound ?q rs = ?q # t"
    using compound_unfold[of ?q rs] by blast
  have "zip (compound p (r # rs)) (tl (compound p (r # rs)))
      = (p, ?q) # zip (compound ?q rs) (tl (compound ?q rs))"
    by (simp add: t)
  moreover have "?q / p - 1 = r" using Cons.prems(1) by (simp add: field_simps)
  ultimately show ?case using ih by simp
qed

lemma returns_compound:
  assumes "p \<noteq> 0" "\<forall>r\<in>set rs. 1 + r \<noteq> 0"
  shows "returns (estimator_of (compound p rs)) = rs"
proof -
  have "dropna (pct_change (compound p rs)) = rs"
    using pct_change_compound[OF assms] dropna_pct_change[of p "tl (compound p rs)"]
    by (simp flip: compound_unfold)
  then show ?thesis by (simp add: estimator_of_def)
qed

lemma returns_example: "returns (estimator_of (compound 100 example_returns)) = example_returns"
  by (rule returns_compound) (simp_all add: example_returns_def)

lemma historical_example:
  "returns self = example_returns \<Longrightarrow> var_historical self (1 / 10) = Inr (Num (21 / 1000))"
  by (simp add: var_historical_def example_returns_def np_percentile_def finite_values_map_Num quantile_linear_def)

lemma var_parametric_single:
  assumes "length (returns self) = 1" "0 \<le> cl" "cl \<le> 1"
  shows "var_parametric self cl g = Inr (NaN, advance 100000 g)"
  using assms by (simp add: var_parametric_value std_single)

lemma var_parametric_finite:
  assumes "2 \<le> length (returns self)" "0 \<le> cl" "cl \<le> 1"
  shows "var_parametric self cl g =
    Inr (Num \<bar>sample_mean (returns self)
               + sample_std (returns self) * quantile_linear (sort (variates 100000 g)) cl\<bar>,
         advance 100000 g)"
proof -
  have "returns self \<noteq> []" using assms(1) by auto
  then show ?thesis using assms by (simp add: var_parametric_value mean_finite std_finite)
qed


lemma np_percentile_Num_D:
  assumes "np_percentile (map Num xs) q = Inr (Num p)"
  shows "xs \<noteq> [] \<and> 0 \<le> q \<and> q \<le> 100 \<and> p = quantile_linear (sort xs) (q / 100)"
  using assms by (auto simp: np_percentile_def finite_values_map_Num split: if_splits)


lemma init_no_data:
  "yf tk sd ed = [] \<Longrightarrow> VaRCalculator_init yf tk sd ed = Inl (ValueError (no_data_message tk))"
  by (simp add: VaRCalculator_init_def download_data_def)

lemma init_one_price:
  "length (yf tk sd ed) = 1 \<Longrightarrow> VaRCalculator_init yf tk sd ed = Inl (ValueError empty_returns_message)"
proof -
  assume l: "length (yf tk sd ed) = 1"
  then have ne: "yf tk sd ed \<noteq> []" by auto
  have "calculate_returns (yf tk sd ed) = Inl (ValueError empty_returns_message)"
    using l by (intro calculate_returns_short) simp
  then show ?thesis using ne by (simp add: VaRCalculator_init_def download_data_def Let_def)
qed

lemma calculate_returns_nonempty: "calculate_returns prices = Inr rets \<Longrightarrow> rets \<noteq> []"
  by (auto simp: calculate_returns_def Let_def split: if_splits)

lemma init_returns_nonempty:
  "VaRCalculator_init yf tk sd ed = Inr self \<Longrightarrow> returns self \<noteq> []"
  by (auto simp: VaRCalculator_init_def split: sum.splits dest: calculate_returns_nonempty)

lemma messages_differ: "no_data_message tk \<noteq> empty_returns_message"
  by (simp add: empty_returns_message_def no_data_message_def)


lemma var_historical_reads_returns:
  "returns a = returns b \<Longrightarrow> var_historical a cl = var_historical b cl"
  by (simp add: var_historical_def)

lemma summary_historical_column:
  assumes ra: "get_var_summary a cls ga = Inr (rows_a, ga')"
      and rb: "get_var_summary b cls gb = Inr (rows_b, gb')"
      and eq: "returns a = returns b"
  shows "map Historical_VaR rows_a = map Historical_VaR rows_b"
proof -
  from summary_loop_shape[OF ra[unfolded get_var_summary_def]]
  have la: "length rows_a = length cls"
    and pa: "\<forall>i<length cls. row_for a (cls ! i) (advance (110000 * i) ga) (rows_a ! i)"
    by auto
  from summary_loop_shape[OF rb[unfolded get_var_summary_def]]
  have lb: "length rows_b = length cls"
    and pb: "\<forall>i<length cls. row_for b (cls ! i) (advance (110000 * i) gb) (rows_b ! i)"
    by auto
  show ?thesis
  proof (rule nth_equalityI)
    show "length (map Historical_VaR rows_a) = length (map Historical_VaR rows_b)"
      by (simp add: la lb)
    fix i assume "i < length (map Historical_VaR rows_a)"
    then have i: "i < length cls" by (simp add: la)
    have "var_historical a (cls ! i) = Inr (Historical_VaR (rows_a ! i))"
      using pa i by (simp add: row_for_def)
    moreover have "var_historical b (cls ! i) = Inr (Historical_VaR (rows_b ! i))"
      using pb i by (simp add: row_for_def)
    ultimately have "Historical_VaR (rows_a ! i) = Historical_VaR (rows_b ! i)"
      using var_historical_reads_returns[OF eq, of "cls ! i"] by simp
    then show "map Historical_VaR rows_a ! i = map Historical_VaR rows_b ! i"
      using i by (simp add: la lb)
  qed
qed


lemma returns_small: "returns (estimator_of [100, 110, 99]) = [1 / 10, - (1 / 10)]"
  by (simp add: estimator_of_def)

lemma returns_single: "returns (estimator_of [100, 101]) = [1 / 100]"
  by (simp add: estimator_of_def)

lemma returns_losses:
  "returns (estimator_of (compound 100 [- (3 / 100), - (2 / 100), - (1 / 100)]))
     = [- (3 / 100), - (2 / 100), - (1 / 100)]"
  by (rule returns_compound) simp_all

lemma returns_scaled: "returns (estimator_of [200, 220, 198]) = [1 / 10, - (1 / 10)]"
  by (simp add: estimator_of_def)

lemma returns_mixed:
  "returns (estimator_of (compound 100 [1 / 100, - (3 / 100), 2 / 100])) = [1 / 100, - (3 / 100), 2 / 100]"
  by (rule returns_compound) simp_all

section \<open>The claims\<close>

text \<open>
  Claim C1, as the code has it. For every non-empty return series and every confidence
  level in \<open>[0, 1]\<close>, \<open>var_historical\<close> returns the absolute value of the percentile of
  the returns at \<open>confidence_level * 100\<close>, the percentile being the one by linear
  interpolation. For the example series of the specification the estimate at \<open>0.1\<close> is
  \<open>0.021\<close>: the rank is \<open>9 * 0.1 = 0.9\<close>, between the two smallest returns \<open>-0.03\<close> and
  \<open>-0.02\<close>, so the 10th percentile is \<open>-0.021\<close>. The value \<open>0.0279\<close> of the claim is more
  than \<open>0.001\<close> away from it, as the closed instance after the theorem shows.
\<close>

theorem historical_is_abs_percentile:
  "(returns self \<noteq> [] \<and> 0 \<le> cl \<and> cl \<le> 1 \<longrightarrow>
      var_historical self cl =
        Inr (Num \<bar>linear_interpolation_percentile (returns self) (cl * 100)\<bar>)) \<and>
   (returns self = example_returns \<longrightarrow> var_historical self (1 / 10) = Inr (Num (21 / 1000)))"
proof (intro conjI impI)
  assume a: "returns self \<noteq> [] \<and> 0 \<le> cl \<and> cl \<le> 1"
  then have "linear_interpolation_percentile (returns self) (cl * 100)
      = quantile_linear (sort (returns self)) cl"
    using linear_interpolation_percentile_eq[of "returns self" "cl * 100"] by simp
  then show "var_historical self cl =
      Inr (Num \<bar>linear_interpolation_percentile (returns self) (cl * 100)\<bar>)"
    using a by (simp add: var_historical_value)
next
  assume "returns self = example_returns"
  then show "var_historical self (1 / 10) = Inr (Num (21 / 1000))"
    by (rule historical_example)
qed

theorem historical_is_abs_percentile_witness:
  "returns (estimator_of (compound 100 example_returns)) = example_returns \<and>
   returns (estimator_of (compound 100 example_returns)) \<noteq> [] \<and>
   (0::real) \<le> 1 / 10 \<and> (1 / 10 :: real) \<le> 1 \<and>
   var_historical (estimator_of (compound 100 example_returns)) (1 / 10) =
     Inr (Num \<bar>linear_interpolation_percentile
                  (returns (estimator_of (compound 100 example_returns))) (1 / 10 * 100)\<bar>) \<and>
   var_historical (estimator_of (compound 100 example_returns)) (1 / 10) = Inr (Num (21 / 1000))"
proof -
  let ?E = "estimator_of (compound 100 example_returns)"
  have r: "returns ?E = example_returns" by (rule returns_example)
  have ne: "returns ?E \<noteq> []" unfolding r by (simp add: example_returns_def)
  have z: "(0::real) \<le> 1 / 10" "(1 / 10 :: real) \<le> 1" by simp_all
  note t = historical_is_abs_percentile[of ?E "1 / 10"]
  have t1: "var_historical ?E (1 / 10) =
      Inr (Num \<bar>linear_interpolation_percentile (returns ?E) (1 / 10 * 100)\<bar>)"
    using t ne z by blast
  have t2: "var_historical ?E (1 / 10) = Inr (Num (21 / 1000))"
    using t r by blast
  show ?thesis using r ne z t1 t2 by blast
qed

theorem historical_example_counterexample:
  "returns (estimator_of (compound 100 example_returns)) = example_returns \<and>
   var_historical (estimator_of (compound 100 example_returns)) (1 / 10) = Inr (Num (21 / 1000)) \<and>
   \<not> \<bar>21 / 1000 - 279 / 10000\<bar> < (1 / 1000 :: real)"
  using returns_example historical_example[OF returns_example] by simp

text \<open>
  Claim C2, as the code has it. For every non-empty return series and every confidence
  level in \<open>(0, 1)\<close>, whatever the generator delivers: the historical estimate is a
  non-negative float; the parametric estimate is one when the series has at least two
  returns; the Monte Carlo estimate is one when the series has at least two returns and at
  least one simulation is drawn. With a single return the standard deviation is NaN and so
  is the parametric estimate, which is not \<open>\<ge> 0\<close>; two prices are enough to construct
  such an estimator, as the closed instance after the theorem shows.
\<close>

theorem var_nonnegative:
  assumes "returns self \<noteq> []" "0 < cl" "cl < 1"
  shows "(\<exists>h. var_historical self cl = Inr h \<and> nonneg h) \<and>
         (2 \<le> length (returns self) \<longrightarrow>
            (\<exists>p. var_parametric self cl g = Inr (p, advance 100000 g) \<and> nonneg p)) \<and>
         (2 \<le> length (returns self) \<and> 1 \<le> n \<longrightarrow>
            (\<exists>m. var_monte_carlo self cl n g = Inr (m, advance (nat n) g) \<and> nonneg m)) \<and>
         (length (returns self) = 1 \<longrightarrow> var_parametric self cl g = Inr (NaN, advance 100000 g))"
proof (intro conjI impI)
  show "\<exists>h. var_historical self cl = Inr h \<and> nonneg h"
    using assms by (simp add: var_historical_value)
next
  assume "2 \<le> length (returns self)"
  then show "\<exists>p. var_parametric self cl g = Inr (p, advance 100000 g) \<and> nonneg p"
    using assms by (simp add: var_parametric_finite)
next
  assume "2 \<le> length (returns self) \<and> 1 \<le> n"
  then show "\<exists>m. var_monte_carlo self cl n g = Inr (m, advance (nat n) g) \<and> nonneg m"
    using assms by (simp add: var_monte_carlo_value)
next
  assume "length (returns self) = 1"
  then show "var_parametric self cl g = Inr (NaN, advance 100000 g)"
    using assms by (simp add: var_parametric_single)
qed

theorem var_nonnegative_witness:
  "returns (estimator_of [100, 110, 99]) \<noteq> [] \<and> (0::real) < 1 / 20 \<and> (1 / 20 :: real) < 1 \<and>
   2 \<le> length (returns (estimator_of [100, 110, 99])) \<and> (1::int) \<le> 10000 \<and>
   (\<exists>h. var_historical (estimator_of [100, 110, 99]) (1 / 20) = Inr h \<and> nonneg h) \<and>
   (\<exists>p. var_parametric (estimator_of [100, 110, 99]) (1 / 20) zero_rng
          = Inr (p, advance 100000 zero_rng) \<and> nonneg p) \<and>
   (\<exists>m. var_monte_carlo (estimator_of [100, 110, 99]) (1 / 20) 10000 zero_rng
          = Inr (m, advance (nat 10000) zero_rng) \<and> nonneg m)"
  using var_nonnegative[of "estimator_of [100, 110, 99]" "1 / 20" zero_rng 10000]
  by (simp add: returns_small)

theorem var_nonnegative_counterexample:
  "VaRCalculator_init (fixed_source [100, 101]) ''SPY'' ''2024-01-01'' ''2025-01-01''
     = Inr (estimator_of [100, 101]) \<and>
   returns (estimator_of [100, 101]) = [1 / 100] \<and>
   var_parametric (estimator_of [100, 101]) (1 / 20) zero_rng = Inr (NaN, advance 100000 zero_rng) \<and>
   \<not> nonneg NaN"
  using init_fixed_source[of "[100, 101]"]
    var_parametric_single[of "estimator_of [100, 101]" "1 / 20" zero_rng]
  by (simp add: returns_single)

text \<open>
  Claim C3. For every return series whose 1st, 5th and 10th percentiles are not positive,
  the historical estimates at the levels \<open>0.01\<close>, \<open>0.05\<close> and \<open>0.10\<close> are the absolute
  values of these percentiles and are ordered: the estimate at \<open>0.01\<close> is at least the one at
  \<open>0.05\<close>, which is at least the one at \<open>0.10\<close>. (The percentile is monotone in its rank,
  lemma \<open>quantile_linear_mono\<close>.) The statistical reading of the claim, on samples of a
  normal distribution, is not a statement about the code and is not formalised.
\<close>

theorem historical_antitone_on_tail:
  assumes "np_percentile (map Num (returns self)) 1 = Inr (Num p1)"
      and "np_percentile (map Num (returns self)) 5 = Inr (Num p5)"
      and "np_percentile (map Num (returns self)) 10 = Inr (Num p10)"
      and "p1 \<le> 0" and "p5 \<le> 0" and "p10 \<le> 0"
  shows "var_historical self (1 / 100) = Inr (Num \<bar>p1\<bar>) \<and>
         var_historical self (5 / 100) = Inr (Num \<bar>p5\<bar>) \<and>
         var_historical self (10 / 100) = Inr (Num \<bar>p10\<bar>) \<and>
         \<bar>p5\<bar> \<le> \<bar>p1\<bar> \<and> \<bar>p10\<bar> \<le> \<bar>p5\<bar>"
proof -
  let ?s = "sort (returns self)"
  have ne: "returns self \<noteq> []"
    and e1: "p1 = quantile_linear ?s (1 / 100)"
    using np_percentile_Num_D[OF assms(1)] by simp_all
  have e5: "p5 = quantile_linear ?s (5 / 100)"
    using np_percentile_Num_D[OF assms(2)] by simp
  have e10: "p10 = quantile_linear ?s (10 / 100)"
    using np_percentile_Num_D[OF assms(3)] by simp
  have s: "sorted ?s" by simp
  have sne: "?s \<noteq> []" using ne by (metis length_0_conv length_sort)
  have "p1 \<le> p5" unfolding e1 e5 by (rule quantile_linear_mono[OF s sne]) simp_all
  moreover have "p5 \<le> p10" unfolding e5 e10 by (rule quantile_linear_mono[OF s sne]) simp_all
  ultimately have "\<bar>p5\<bar> \<le> \<bar>p1\<bar>" "\<bar>p10\<bar> \<le> \<bar>p5\<bar>" using assms(4-6) by simp_all
  moreover have "var_historical self (1 / 100) = Inr (Num \<bar>p1\<bar>)"
    using assms(1) by (simp add: var_historical_def)
  moreover have "var_historical self (5 / 100) = Inr (Num \<bar>p5\<bar>)"
    using assms(2) by (simp add: var_historical_def)
  moreover have "var_historical self (10 / 100) = Inr (Num \<bar>p10\<bar>)"
    using assms(3) by (simp add: var_historical_def)
  ultimately show ?thesis by blast
qed

theorem historical_antitone_on_tail_witness:
  "np_percentile (map Num (returns (estimator_of (compound 100 [- (3 / 100), - (2 / 100), - (1 / 100)])))) 1
     = Inr (Num (- (149 / 5000))) \<and>
   np_percentile (map Num (returns (estimator_of (compound 100 [- (3 / 100), - (2 / 100), - (1 / 100)])))) 5
     = Inr (Num (- (29 / 1000))) \<and>
   np_percentile (map Num (returns (estimator_of (compound 100 [- (3 / 100), - (2 / 100), - (1 / 100)])))) 10
     = Inr (Num (- (7 / 250))) \<and>
   var_historical (estimator_of (compound 100 [- (3 / 100), - (2 / 100), - (1 / 100)])) (1 / 100)
     = Inr (Num (149 / 5000)) \<and>
   var_historical (estimator_of (compound 100 [- (3 / 100), - (2 / 100), - (1 / 100)])) (5 / 100)
     = Inr (Num (29 / 1000)) \<and>
   var_historical (estimator_of (compound 100 [- (3 / 100), - (2 / 100), - (1 / 100)])) (10 / 100)
     = Inr (Num (7 / 250)) \<and>
   (7 / 250 :: real) \<le> 29 / 1000 \<and> (29 / 1000 :: real) \<le> 149 / 5000"
proof -
  let ?E = "estimator_of (compound 100 [- (3 / 100), - (2 / 100), - (1 / 100)])"
  have h1: "np_percentile (map Num (returns ?E)) 1 = Inr (Num (- (149 / 5000)))"
    unfolding returns_losses by (simp add: np_percentile_def quantile_linear_def)
  have h5: "np_percentile (map Num (returns ?E)) 5 = Inr (Num (- (29 / 1000)))"
    unfolding returns_losses by (simp add: np_percentile_def quantile_linear_def)
  have h10: "np_percentile (map Num (returns ?E)) 10 = Inr (Num (- (7 / 250)))"
    unfolding returns_losses by (simp add: np_percentile_def quantile_linear_def)
  have t: "var_historical ?E (1 / 100) = Inr (Num \<bar>- (149 / 5000)\<bar>) \<and>
         var_historical ?E (5 / 100) = Inr (Num \<bar>- (29 / 1000)\<bar>) \<and>
         var_historical ?E (10 / 100) = Inr (Num \<bar>- (7 / 250)\<bar>) \<and>
         \<bar>- (29 / 1000)\<bar> \<le> \<bar>- (149 / 5000 :: real)\<bar> \<and> \<bar>- (7 / 250)\<bar> \<le> \<bar>- (29 / 1000 :: real)\<bar>"
    by (rule historical_antitone_on_tail[OF h1 h5 h10]) simp_all
  have a: "\<bar>- (149 / 5000 :: real)\<bar> = 149 / 5000" "\<bar>- (29 / 1000 :: real)\<bar> = 29 / 1000"
    "\<bar>- (7 / 250 :: real)\<bar> = 7 / 250" by simp_all
  show ?thesis using h1 h5 h10 t unfolding a by blast
qed



text \<open>
  Claim C5. Construction over fewer than two prices fails: an empty price column raises
  the \<^verbatim>\<open>ValueError\<close> with the no-data message (the specification's DataUnavailableError),
  a column of one price raises the \<^verbatim>\<open>ValueError\<close> with the empty-returns message (the
  specification's EmptyReturnsError), and a construction that succeeds never holds an empty
  return series.
\<close>

theorem init_fails_below_two_prices:
  "(yf tk sd ed = [] \<longrightarrow>
      VaRCalculator_init yf tk sd ed = Inl (ValueError (no_data_message tk))) \<and>
   (length (yf tk sd ed) = 1 \<longrightarrow>
      VaRCalculator_init yf tk sd ed = Inl (ValueError empty_returns_message)) \<and>
   (\<forall>self. VaRCalculator_init yf tk sd ed = Inr self \<longrightarrow> returns self \<noteq> [])"
  using init_no_data[of yf tk sd ed] init_one_price[of yf tk sd ed]
    init_returns_nonempty[of yf tk sd ed]
  by blast

theorem init_fails_below_two_prices_witness:
  "fixed_source [] ''SPY'' ''2024-01-01'' ''2025-01-01'' = [] \<and>
   VaRCalculator_init (fixed_source []) ''SPY'' ''2024-01-01'' ''2025-01-01''
     = Inl (ValueError (no_data_message ''SPY'')) \<and>
   length (fixed_source [100] ''SPY'' ''2024-01-01'' ''2025-01-01'') = 1 \<and>
   VaRCalculator_init (fixed_source [100]) ''SPY'' ''2024-01-01'' ''2025-01-01''
     = Inl (ValueError empty_returns_message) \<and>
   VaRCalculator_init (fixed_source [100, 110, 99]) ''SPY'' ''2024-01-01'' ''2025-01-01''
     = Inr (estimator_of [100, 110, 99]) \<and>
   returns (estimator_of [100, 110, 99]) \<noteq> []"
proof -
  have a: "fixed_source [] ''SPY'' ''2024-01-01'' ''2025-01-01'' = []"
    and b: "length (fixed_source [100] ''SPY'' ''2024-01-01'' ''2025-01-01'') = 1"
    by (simp_all add: fixed_source_def)
  have c: "VaRCalculator_init (fixed_source [100, 110, 99]) ''SPY'' ''2024-01-01'' ''2025-01-01''
     = Inr (estimator_of [100, 110, 99])"
    by (rule init_fixed_source) simp
  show ?thesis
    using a b c
      init_fails_below_two_prices[of "fixed_source []" "''SPY''" "''2024-01-01''" "''2025-01-01''"]
      init_fails_below_two_prices[of "fixed_source [100]" "''SPY''" "''2024-01-01''" "''2025-01-01''"]
      init_fails_below_two_prices[of "fixed_source [100, 110, 99]" "''SPY''" "''2024-01-01''" "''2025-01-01''"]
    by blast
qed

text \<open>
  Claim C6. For every price column of \<open>n \<ge> 2\<close> positive prices, \<open>calculate_returns\<close>
  succeeds with a series of exactly \<open>n - 1\<close> returns, which is not empty and whose element
  \<open>i - 1\<close> (the return of row \<open>i\<close>, for \<open>1 \<le> i < n\<close>) is \<open>price\<^sub>i / price\<^sub>i\<^sub>-\<^sub>1 - 1\<close>.
\<close>

theorem returns_are_percentage_changes:
  assumes "2 \<le> length prices" and "\<forall>p\<in>set prices. 0 < p"
  shows "\<exists>rets. calculate_returns prices = Inr rets \<and>
           length rets = length prices - 1 \<and> rets \<noteq> [] \<and>
           (\<forall>i. 1 \<le> i \<and> i < length prices \<longrightarrow>
                rets ! (i - 1) = prices ! i / prices ! (i - 1) - 1)"
proof (intro exI conjI allI impI)
  show "calculate_returns prices = Inr (dropna (pct_change prices))"
    using assms(1) by (rule calculate_returns_long)
  show "length (dropna (pct_change prices)) = length prices - 1"
    by (rule length_dropna_pct_change)
  show "dropna (pct_change prices) \<noteq> []"
    using assms(1) length_dropna_pct_change[of prices] by auto
  fix i assume "1 \<le> i \<and> i < length prices"
  then have "1 \<le> i" "i < length prices" by simp_all
  then show "dropna (pct_change prices) ! (i - 1) = prices ! i / prices ! (i - 1) - 1"
    by (rule nth_dropna_pct_change)
qed

theorem returns_are_percentage_changes_witness:
  "2 \<le> length [100, 110, 99 :: real] \<and> (0::real) < 100 \<and> (0::real) < 110 \<and> (0::real) < 99 \<and>
   calculate_returns [100, 110, 99] = Inr [1 / 10, - (1 / 10)]"
proof -
  have h: "2 \<le> length [100, 110, 99 :: real]" "\<forall>p\<in>set [100, 110, 99 :: real]. 0 < p" by simp_all
  from returns_are_percentage_changes[OF h] obtain rets where
    r: "calculate_returns [100, 110, 99] = Inr rets" "length rets = length [100, 110, 99 :: real] - 1"
       "\<forall>i. 1 \<le> i \<and> i < length [100, 110, 99 :: real] \<longrightarrow>
            rets ! (i - 1) = [100, 110, 99] ! i / [100, 110, 99] ! (i - 1) - 1"
    by blast
  have "rets ! 0 = 1 / 10" using r(3)[rule_format, of 1] by simp
  moreover have "rets ! 1 = - (1 / 10)" using r(3)[rule_format, of 2] by simp
  moreover have "length rets = 2" using r(2) by simp
  ultimately have "rets = [1 / 10, - (1 / 10)]"
    by (intro nth_equalityI) (auto simp: less_Suc_eq numeral_2_eq_2)
  then show ?thesis using r(1) by simp
qed

text \<open>
  Claim C7. For every return series of at least two returns (so that the standard
  deviation with denominator \<open>n - 1\<close> is defined) and every confidence level in \<open>[0, 1]\<close>,
  \<open>var_parametric\<close> returns \<open>\<bar>\<mu> + \<sigma> * z\<bar>\<close>, where \<open>\<mu>\<close> is the sample mean, \<open>\<sigma>\<close> the
  sample standard deviation with denominator \<open>n - 1\<close> and \<open>z\<close> the empirical percentile, at
  \<open>confidence_level * 100\<close>, of the 100000 standard-normal variates the call draws.
\<close>

theorem parametric_formula:
  assumes "2 \<le> length (returns self)" and "0 \<le> cl" and "cl \<le> 1"
  shows "var_parametric self cl g =
     Inr (Num \<bar>sample_mean (returns self)
                + sample_std (returns self)
                  * linear_interpolation_percentile (variates 100000 g) (cl * 100)\<bar>,
          advance 100000 g)"
proof -
  have "variates 100000 g \<noteq> []" by (rule variates_nonempty) simp
  then have "linear_interpolation_percentile (variates 100000 g) (cl * 100)
      = quantile_linear (sort (variates 100000 g)) cl"
    using assms linear_interpolation_percentile_eq[of "variates 100000 g" "cl * 100"] by simp
  then show ?thesis using assms by (simp add: var_parametric_finite)
qed

theorem parametric_formula_witness:
  "2 \<le> length (returns (estimator_of [100, 110, 99])) \<and> (0::real) \<le> 1 / 20 \<and> (1 / 20 :: real) \<le> 1 \<and>
   var_parametric (estimator_of [100, 110, 99]) (1 / 20) zero_rng =
     Inr (Num \<bar>sample_mean (returns (estimator_of [100, 110, 99]))
                + sample_std (returns (estimator_of [100, 110, 99]))
                  * linear_interpolation_percentile (variates 100000 zero_rng) (1 / 20 * 100)\<bar>,
          advance 100000 zero_rng)"
proof -
  have h: "2 \<le> length (returns (estimator_of [100, 110, 99]))" by (simp add: returns_small)
  have z: "(0::real) \<le> 1 / 20" "(1 / 20 :: real) \<le> 1" by simp_all
  show ?thesis
    using h z parametric_formula[OF h z, of zero_rng] by blast
qed

text \<open>
  Claim C8. \<open>var_historical\<close> is deterministic: two estimators that hold the same return
  series give the same result at the same confidence level, whatever their other fields
  are; the function does not read the random generator. Inside \<open>get_var_summary\<close>, where
  the generator is threaded through, the column of historical estimates is the same for
  every two generators.
\<close>

theorem historical_deterministic:
  assumes "returns a = returns b"
  shows "var_historical a cl = var_historical b cl \<and>
         (\<forall>rows_a ga' rows_b gb'.
            get_var_summary a cls ga = Inr (rows_a, ga') \<and>
            get_var_summary b cls gb = Inr (rows_b, gb') \<longrightarrow>
            map Historical_VaR rows_a = map Historical_VaR rows_b)"
  using var_historical_reads_returns[OF assms] summary_historical_column[OF _ _ assms]
  by blast

theorem historical_deterministic_witness:
  "returns (estimator_of [100, 110, 99]) = returns (estimator_of [200, 220, 198]) \<and>
   estimator_of [100, 110, 99] \<noteq> estimator_of [200, 220, 198] \<and>
   var_historical (estimator_of [100, 110, 99]) (1 / 20)
     = var_historical (estimator_of [200, 220, 198]) (1 / 20) \<and>
   (\<exists>rows_a ga' rows_b gb'.
      get_var_summary (estimator_of [100, 110, 99]) [1 / 100, 1 / 20] zero_rng = Inr (rows_a, ga') \<and>
      get_var_summary (estimator_of [200, 220, 198]) [1 / 100, 1 / 20] real = Inr (rows_b, gb') \<and>
      map Historical_VaR rows_a = map Historical_VaR rows_b)"
proof -
  let ?A = "estimator_of [100, 110, 99]"
  let ?B = "estimator_of [200, 220, 198]"
  let ?cls = "[1 / 100, 1 / 20] :: real list"
  have r: "returns ?A = returns ?B"
    by (simp add: returns_small returns_scaled)
  have d: "?A \<noteq> ?B"
    by (simp add: estimator_of_def)
  have lv: "\<forall>cl\<in>set ?cls. 0 \<le> cl \<and> cl \<le> 1" by simp
  obtain rows_a ga' where a: "get_var_summary ?A ?cls zero_rng = Inr (rows_a, ga')"
    using summary_loop_total[OF lv, of ?A "[]" zero_rng]
    by (auto simp: get_var_summary_def returns_small)
  obtain rows_b gb' where b: "get_var_summary ?B ?cls real = Inr (rows_b, gb')"
    using summary_loop_total[OF lv, of ?B "[]" real]
    by (auto simp: get_var_summary_def returns_scaled)
  note t = historical_deterministic[OF r, of "1 / 20" ?cls zero_rng real]
  have "map Historical_VaR rows_a = map Historical_VaR rows_b" using t a b by blast
  then show ?thesis using r d t a b by blast
qed

text \<open>
  Claim C9. The two construction failures, an empty price column and an empty return
  series, are both raised as \<^verbatim>\<open>ValueError\<close>: a handler that selects by class accepts both,
  and only the message tells them apart.
\<close>

theorem construction_failures_share_class:
  assumes "yf1 tk1 sd1 ed1 = []" and "length (yf2 tk2 sd2 ed2) = 1"
  shows "VaRCalculator_init yf1 tk1 sd1 ed1 = Inl (ValueError (no_data_message tk1)) \<and>
         VaRCalculator_init yf2 tk2 sd2 ed2 = Inl (ValueError empty_returns_message) \<and>
         except_ValueError (VaRCalculator_init yf1 tk1 sd1 ed1) \<and>
         except_ValueError (VaRCalculator_init yf2 tk2 sd2 ed2) \<and>
         no_data_message tk1 \<noteq> empty_returns_message"
  using assms init_no_data[of yf1 tk1 sd1 ed1] init_one_price[of yf2 tk2 sd2 ed2]
    messages_differ[of tk1]
  by simp

theorem construction_failures_share_class_witness:
  "fixed_source [] ''SPY'' ''2024-01-01'' ''2025-01-01'' = [] \<and>
   length (fixed_source [100] ''SPY'' ''2024-01-01'' ''2025-01-01'') = 1 \<and>
   except_ValueError (VaRCalculator_init (fixed_source []) ''SPY'' ''2024-01-01'' ''2025-01-01'') \<and>
   except_ValueError (VaRCalculator_init (fixed_source [100]) ''SPY'' ''2024-01-01'' ''2025-01-01'') \<and>
   VaRCalculator_init (fixed_source []) ''SPY'' ''2024-01-01'' ''2025-01-01''
     \<noteq> VaRCalculator_init (fixed_source [100]) ''SPY'' ''2024-01-01'' ''2025-01-01''"
proof -
  have a: "fixed_source [] ''SPY'' ''2024-01-01'' ''2025-01-01'' = []"
    and b: "length (fixed_source [100] ''SPY'' ''2024-01-01'' ''2025-01-01'') = 1"
    by (simp_all add: fixed_source_def)
  show ?thesis
    using a b
      construction_failures_share_class[of "fixed_source []" "''SPY''" "''2024-01-01''"
        "''2025-01-01''" "fixed_source [100]" "''SPY''" "''2024-01-01''" "''2025-01-01''"]
    by auto
qed

text \<open>
  Claim C10. The confidence level is not validated at entry: at the boundary values 0
  and 1 \<open>var_historical\<close> returns the absolute value of the smallest and of the largest
  return, and the other two estimators return a value as well; none of them raises.
\<close>

theorem boundary_levels_accepted:
  assumes "returns self \<noteq> []"
  shows "var_historical self 0 = Inr (Num \<bar>Min (set (returns self))\<bar>) \<and>
         var_historical self 1 = Inr (Num \<bar>Max (set (returns self))\<bar>) \<and>
         (\<exists>p. var_parametric self 0 g = Inr (p, advance 100000 g)) \<and>
         (\<exists>p. var_parametric self 1 g = Inr (p, advance 100000 g)) \<and>
         (\<exists>m. var_monte_carlo self 0 10000 g = Inr (m, advance 10000 g)) \<and>
         (\<exists>m. var_monte_carlo self 1 10000 g = Inr (m, advance 10000 g))"
proof -
  have sne: "sort (returns self) \<noteq> []" using assms by (metis length_0_conv length_sort)
  have "quantile_linear (sort (returns self)) 0 = Min (set (returns self))"
    using quantile_linear_zero[OF sne] sort_nth_0_Min[OF assms] by simp
  then have h0: "var_historical self 0 = Inr (Num \<bar>Min (set (returns self))\<bar>)"
    using assms by (simp add: var_historical_value)
  have "quantile_linear (sort (returns self)) 1 = Max (set (returns self))"
    using quantile_linear_one[OF sne] sort_nth_last_Max[OF assms] by simp
  then have h1: "var_historical self 1 = Inr (Num \<bar>Max (set (returns self))\<bar>)"
    using assms by (simp add: var_historical_value)
  have p0: "\<exists>p. var_parametric self 0 g = Inr (p, advance 100000 g)"
    by (simp add: var_parametric_value)
  have p1: "\<exists>p. var_parametric self 1 g = Inr (p, advance 100000 g)"
    by (simp add: var_parametric_value)
  have m0: "\<exists>m. var_monte_carlo self 0 10000 g = Inr (m, advance 10000 g)"
    using var_monte_carlo_total[of 0 10000 self g] by simp
  have m1: "\<exists>m. var_monte_carlo self 1 10000 g = Inr (m, advance 10000 g)"
    using var_monte_carlo_total[of 1 10000 self g] by simp
  show ?thesis using h0 h1 p0 p1 m0 m1 by blast
qed

theorem boundary_levels_accepted_witness:
  "returns (estimator_of (compound 100 [1 / 100, - (3 / 100), 2 / 100])) \<noteq> [] \<and>
   var_historical (estimator_of (compound 100 [1 / 100, - (3 / 100), 2 / 100])) 0 = Inr (Num (3 / 100)) \<and>
   var_historical (estimator_of (compound 100 [1 / 100, - (3 / 100), 2 / 100])) 1 = Inr (Num (2 / 100))"
proof -
  let ?E = "estimator_of (compound 100 [1 / 100, - (3 / 100), 2 / 100])"
  have ne: "returns ?E \<noteq> []" unfolding returns_mixed by simp
  have mn: "\<bar>Min (set (returns ?E))\<bar> = 3 / 100" unfolding returns_mixed by simp
  have mx: "\<bar>Max (set (returns ?E))\<bar> = 2 / 100" unfolding returns_mixed by simp
  show ?thesis using ne boundary_levels_accepted[OF ne, of zero_rng] unfolding mn mx by blast
qed

end
